theory Spec2Isabelle
  imports Main
begin

section \<open>Forwarded-IP reconciliation of the GCE Windows agent (addresses.go)\<close>

text \<open>
  The development embeds \<^verbatim>\<open>src/GCEWindowsAgent/addresses.go\<close>. Go slices of strings are
  HOL lists (a nil slice and an empty slice are both \<open>[]\<close>), Go strings are HOL strings.
  Package-level variables are the fields of the record \<open>globals\<close>, threaded through the
  functions that read or write them. Calls into the operating system, the registry and
  the Go libraries for interfaces are fields of the record \<open>os\<close>, functions over an
  abstract world state \<open>'w\<close>; a Go run-time panic is the value \<open>Panic\<close>. Log lines are
  not modelled: no function of the file reads them back.
\<close>

subsection \<open>Library functions\<close>

text \<open>
  Modelled from the spec: \<open>containsString\<close> is defined in another file of the package; the
  specification describes its use as set membership of a string in a list. It is written
  as the linear search such a helper performs.
\<close>

fun containsString :: "string \<Rightarrow> string list \<Rightarrow> bool" where
  "containsString s [] = False"
| "containsString s (a # ss) = (if a = s then True else containsString s ss)"

text \<open>
  \<open>strconv.ParseBool\<close> of the Go standard library: it accepts 1, t, T, TRUE, true, True,
  0, f, F, FALSE, false, False; any other string is an error (\<open>None\<close>).
\<close>

definition ParseBool :: "string \<Rightarrow> bool option" where
  "ParseBool str =
     (if str \<in> set [''1'', ''t'', ''T'', ''TRUE'', ''true'', ''True''] then Some True
      else if str \<in> set [''0'', ''f'', ''F'', ''FALSE'', ''false'', ''False''] then Some False
      else None)"

text \<open>
  \<open>strings.Split s sep\<close> for a one-character separator: the substrings between the
  separators, in order; the empty string gives one empty substring.
\<close>

fun Split :: "string \<Rightarrow> char \<Rightarrow> string list" where
  "Split [] sep = ['''']"
| "Split (c # cs) sep =
     (if c = sep then [] # Split cs sep
      else (case Split cs sep of
              [] \<Rightarrow> [c # []]
            | w # ws \<Rightarrow> (c # w) # ws))"

text \<open>\<open>strings.TrimSuffix\<close>: the string without the suffix when it ends with it.\<close>

definition TrimSuffix :: "string \<Rightarrow> string \<Rightarrow> string" where
  "TrimSuffix s suffix =
     (if length suffix \<le> length s \<and> drop (length s - length suffix) s = suffix
      then take (length s - length suffix) s
      else s)"

subsection \<open>Data model\<close>

text \<open>
  The fields of \<open>metadataJSON\<close> that the file reads. The type is declared in another file
  of the package; the nested structs \<open>Instance\<close> and \<open>Project\<close> are flattened into the
  field names.
\<close>

record attributes =
  WSFCAddresses :: string
  EnableWSFC :: string
  DisableAddressManager :: string

record networkInterface =
  ForwardedIps :: "string list"
  Mac :: string

record metadataJSON =
  Instance_Attributes :: attributes
  Instance_NetworkInterfaces :: "networkInterface list"
  Project_Attributes :: attributes

text \<open>
  The local configuration file (\<open>ini.File\<close>), by the three queries the code makes:
  \<open>Section("wsfc").Key("addresses").String()\<close>, \<open>Section("wsfc").Key("enable").Bool()\<close>
  (\<open>None\<close> when the library returns an error) and
  \<open>Section("addressManager").Key("disable").String()\<close>.
\<close>

record iniFile =
  wsfc_addresses :: string
  wsfc_enable :: "bool option"
  addressManager_disable :: string

record addresses =
  newMetadata :: metadataJSON
  oldMetadata :: metadataJSON
  config :: iniFile

text \<open>
  The package-level variables \<open>addressDisabled\<close>, \<open>oldWSFCAddresses\<close>, \<open>oldWSFCEnable\<close>
  and \<open>badMAC\<close>, and the status notifications sent by \<open>logStatus\<close>.
\<close>

record globals =
  addressDisabled :: bool
  oldWSFCAddresses :: string
  oldWSFCEnable :: bool
  badMAC :: "string list"
  statusLog :: "(string \<times> bool) list"

subsection \<open>Config resolution and change detection\<close>

definition parseWSFCAddresses :: "addresses \<Rightarrow> string" where
  "parseWSFCAddresses a =
     (let wsfcAddresses = wsfc_addresses (config a) in
      if length wsfcAddresses > 0 then wsfcAddresses
      else if length (WSFCAddresses (Instance_Attributes (newMetadata a))) > 0
        then WSFCAddresses (Instance_Attributes (newMetadata a))
      else if length (WSFCAddresses (Project_Attributes (newMetadata a))) > 0
        then WSFCAddresses (Project_Attributes (newMetadata a))
      else '''')"

definition parseWSFCEnable :: "addresses \<Rightarrow> bool" where
  "parseWSFCEnable a =
     (case wsfc_enable (config a) of
        Some wsfcEnable \<Rightarrow> wsfcEnable
      | None \<Rightarrow>
         (case ParseBool (EnableWSFC (Instance_Attributes (newMetadata a))) of
            Some wsfcEnable \<Rightarrow> wsfcEnable
          | None \<Rightarrow>
             (case ParseBool (EnableWSFC (Project_Attributes (newMetadata a))) of
                Some wsfcEnable \<Rightarrow> wsfcEnable
              | None \<Rightarrow> False)))"

text \<open>
  \<open>diff\<close> compares the interface lists of the two snapshots and the resolved failover
  settings with the remembered ones, then stores the resolved settings.
  \<open>reflect.DeepEqual\<close> is equality of the lists of the modelled fields; it also tells a
  nil slice from an empty one, which lists do not, and this touches the returned boolean
  only.
\<close>

definition diff :: "addresses \<Rightarrow> globals \<Rightarrow> bool \<times> globals" where
  "diff a g =
     (let wsfcAddresses = parseWSFCAddresses a;
          wsfcEnable = parseWSFCEnable a;
          d = (\<not> (Instance_NetworkInterfaces (newMetadata a)
                   = Instance_NetworkInterfaces (oldMetadata a))
               \<or> wsfcEnable \<noteq> oldWSFCEnable g
               \<or> wsfcAddresses \<noteq> oldWSFCAddresses g)
      in (d, g\<lparr>oldWSFCAddresses := wsfcAddresses, oldWSFCEnable := wsfcEnable\<rparr>))"

text \<open>
  \<open>disabled\<close>: the body computes the named result; the deferred function then stores it
  and sends one status notification when it differs from the remembered value.
\<close>

definition disabled_body :: "addresses \<Rightarrow> globals \<Rightarrow> bool" where
  "disabled_body a g =
     (case ParseBool (addressManager_disable (config a)) of
        Some d \<Rightarrow> d
      | None \<Rightarrow>
         (case ParseBool (DisableAddressManager (Instance_Attributes (newMetadata a))) of
            Some d \<Rightarrow> d
          | None \<Rightarrow>
             (case ParseBool (DisableAddressManager (Project_Attributes (newMetadata a))) of
                Some d \<Rightarrow> d
              | None \<Rightarrow> addressDisabled g)))"

definition disabled :: "addresses \<Rightarrow> globals \<Rightarrow> bool \<times> globals" where
  "disabled a g =
     (let d = disabled_body a g in
      if d \<noteq> addressDisabled g
      then (d, g\<lparr>addressDisabled := d, statusLog := statusLog g @ [(''address'', d)]\<rparr>)
      else (d, g))"

subsection \<open>The diff engine\<close>

definition compareIPs ::
  "string list \<Rightarrow> string list \<Rightarrow> string list \<Rightarrow> string list \<times> string list" where
  "compareIPs regFwdIPs mdFwdIPs cfgIPs =
     (let toAdd = fold (\<lambda>mdIP toAdd.
                     if \<not> containsString mdIP cfgIPs then toAdd @ [mdIP] else toAdd)
                   mdFwdIPs [];
          toRm = fold (\<lambda>cfgIP toRm.
                     if containsString cfgIP regFwdIPs \<and> \<not> containsString cfgIP mdFwdIPs
                     then toRm @ [cfgIP] else toRm)
                   cfgIPs []
      in (toAdd, toRm))"

subsection \<open>The failover exclusion filter\<close>

text \<open>
  The parameter \<open>ParseIP\<close> stands for \<open>net.ParseIP\<close> of the Go standard library: it holds
  of a string when \<open>net.ParseIP\<close> returns a non-nil address.
\<close>

definition wsfcAddrs :: "(string \<Rightarrow> bool) \<Rightarrow> addresses \<Rightarrow> string list" where
  "wsfcAddrs ParseIP a =
     fold (\<lambda>wsfcAddr acc.
             if length wsfcAddr = 0 then acc
             else if \<not> ParseIP wsfcAddr then acc
             else acc @ [wsfcAddr])
          (Split (WSFCAddresses (Instance_Attributes (newMetadata a))) CHR '','') []"

definition filteredList :: "string list \<Rightarrow> string list \<Rightarrow> string list" where
  "filteredList addrs ips =
     fold (\<lambda>ip acc. if \<not> containsString ip addrs then acc @ [ip] else acc) ips []"

definition applyWSFCFilter :: "(string \<Rightarrow> bool) \<Rightarrow> addresses \<Rightarrow> addresses" where
  "applyWSFCFilter ParseIP a =
     (let addrs = wsfcAddrs ParseIP a;
          interfaces = Instance_NetworkInterfaces (newMetadata a)
      in if length addrs \<noteq> 0
         then a\<lparr>newMetadata := (newMetadata a)\<lparr>Instance_NetworkInterfaces :=
                  map (\<lambda>ni. ni\<lparr>ForwardedIps := filteredList addrs (ForwardedIps ni)\<rparr>)
                      interfaces\<rparr>\<rparr>
         else (case ParseBool (EnableWSFC (Instance_Attributes (newMetadata a))) of
                 Some True \<Rightarrow>
                   a\<lparr>newMetadata := (newMetadata a)\<lparr>Instance_NetworkInterfaces :=
                       map (\<lambda>ni. ni\<lparr>ForwardedIps := []\<rparr>) interfaces\<rparr>\<rparr>
               | _ \<Rightarrow> a))"

subsection \<open>The apply loop\<close>

text \<open>
  \<open>error\<close> values are opaque, except for \<open>errRegNotExist\<close>, which the code compares with.
  \<open>Interface\<close> holds the fields of \<open>net.Interface\<close>; \<open>HardwareAddr\<close> is kept as the text
  that \<open>HardwareAddr.String()\<close> prints, since the code compares these texts, and \<open>Flags\<close>
  as a number.
\<close>

datatype error = errRegNotExist | Error string

record Interface =
  Index :: int
  MTU :: int
  Name :: string
  HardwareAddr :: string
  Flags :: nat

text \<open>
  The collaborators of \<open>set\<close>. \<open>ParseMAC\<close> returns the text of \<open>mac.String()\<close> on
  success. \<open>Addrs\<close> returns the texts of \<open>addr.String()\<close>. \<open>addIPAddress\<close> receives the
  address text and the interface index (the mask is a constant), \<open>deleteIPAddress\<close> the
  address text; \<open>None\<close> is a nil error. The registry functions receive the value name
  (the key is the constant \<open>addressKey\<close>).
\<close>

record 'w os =
  Interfaces :: "'w \<Rightarrow> (error + Interface list) \<times> 'w"
  ParseMAC :: "string \<Rightarrow> error + string"
  Addrs :: "Interface \<Rightarrow> 'w \<Rightarrow> (error + string list) \<times> 'w"
  readRegMultiString :: "string \<Rightarrow> 'w \<Rightarrow> (error + string list) \<times> 'w"
  writeRegMultiString :: "string \<Rightarrow> string list \<Rightarrow> 'w \<Rightarrow> error option \<times> 'w"
  addIPAddress :: "string \<Rightarrow> int \<Rightarrow> 'w \<Rightarrow> error option \<times> 'w"
  deleteIPAddress :: "string \<Rightarrow> 'w \<Rightarrow> error option \<times> 'w"

datatype 'a run = Panic | Done 'a

text \<open>
  \<open>append(regFwdIPs[:i], regFwdIPs[i+1:]...)\<close>. The slice expression \<open>regFwdIPs[i+1:]\<close>
  panics when \<open>i + 1\<close> exceeds the length. Otherwise the result has \<open>length - 1\<close>
  elements, which fits the capacity of \<open>regFwdIPs[:i]\<close>, so \<open>append\<close> writes into the
  array of \<open>regFwdIPs\<close> itself: the elements after position \<open>i\<close> move down by one and the
  last slot keeps its value. The first component is the new \<open>reg\<close>, the second is what
  \<open>regFwdIPs\<close> (whose length is unchanged) holds afterwards.
\<close>

definition removeAt :: "nat \<Rightarrow> string list \<Rightarrow> (string list \<times> string list) run" where
  "removeAt i regFwdIPs =
     (if i + 1 > length regFwdIPs then Panic
      else Done (take i regFwdIPs @ drop (i + 1) regFwdIPs,
                 take i regFwdIPs @ drop (i + 1) regFwdIPs @ [last regFwdIPs]))"

text \<open>
  The inner loop \<open>for i, rIP := range reg\<close> of the add-failure branch, from position
  \<open>i\<close> on: at the first element equal to \<open>ip\<close> it reassigns \<open>reg\<close> and breaks.
\<close>

fun searchReg ::
  "string \<Rightarrow> string list \<Rightarrow> nat \<Rightarrow> string list \<Rightarrow> string list
     \<Rightarrow> (string list \<times> string list) run" where
  "searchReg ip [] i reg regFwdIPs = Done (reg, regFwdIPs)"
| "searchReg ip (rIP # rest) i reg regFwdIPs =
     (if rIP = ip then removeAt i regFwdIPs
      else searchReg ip rest (i + 1) reg regFwdIPs)"

text \<open>The loop over \<open>toAdd\<close>; it carries \<open>reg\<close> and the contents of \<open>regFwdIPs\<close>.\<close>

fun addLoop ::
  "'w os \<Rightarrow> int \<Rightarrow> string list \<Rightarrow> string list \<Rightarrow> string list \<Rightarrow> 'w
     \<Rightarrow> (string list \<times> 'w) run" where
  "addLoop os idx [] reg regFwdIPs w = Done (reg, w)"
| "addLoop os idx (ip # ips) reg regFwdIPs w =
     (case addIPAddress os ip idx w of
        (None, w') \<Rightarrow> addLoop os idx ips reg regFwdIPs w'
      | (Some err, w') \<Rightarrow>
          (case searchReg ip reg 0 reg regFwdIPs of
             Panic \<Rightarrow> Panic
           | Done (reg', regFwdIPs') \<Rightarrow> addLoop os idx ips reg' regFwdIPs' w'))"

text \<open>The loop over \<open>toRm\<close>.\<close>

fun rmLoop :: "'w os \<Rightarrow> string list \<Rightarrow> string list \<Rightarrow> 'w \<Rightarrow> string list \<times> 'w" where
  "rmLoop os [] reg w = (reg, w)"
| "rmLoop os (ip # ips) reg w =
     (case deleteIPAddress os ip w of
        (None, w') \<Rightarrow> rmLoop os ips reg w'
      | (Some err, w') \<Rightarrow> rmLoop os ips (reg @ [ip]) w')"

text \<open>
  The addresses of \<open>toRm\<close> whose \<open>deleteIPAddress\<close> call returns an error, in the order
  of the calls, each call made in the world that the earlier calls have left. It names
  the failed removes of one run of the loop over \<open>toRm\<close> in the statements below; the
  loop itself is \<open>rmLoop\<close>.
\<close>

fun failedRm :: "'w os \<Rightarrow> string list \<Rightarrow> 'w \<Rightarrow> string list" where
  "failedRm os [] w = []"
| "failedRm os (ip # ips) w =
     (case deleteIPAddress os ip w of
        (None, w') \<Rightarrow> failedRm os ips w'
      | (Some err, w') \<Rightarrow> ip # failedRm os ips w')"

definition zeroInterface :: Interface where
  "zeroInterface = \<lparr>Index = 0, MTU = 0, Name = '''', HardwareAddr = '''', Flags = 0\<rparr>"

definition noteBadMAC :: "string \<Rightarrow> globals \<Rightarrow> globals" where
  "noteBadMAC m g =
     (if \<not> containsString m (badMAC g) then g\<lparr>badMAC := badMAC g @ [m]\<rparr> else g)"

text \<open>
  Lines 172 to 204: from the live addresses to the write of the next persisted value.
  The result is the value handed to \<open>writeRegMultiString\<close>, whose error is only logged.
\<close>

definition reconcile ::
  "'w os \<Rightarrow> string \<Rightarrow> Interface \<Rightarrow> networkInterface \<Rightarrow> string list \<Rightarrow> string list \<Rightarrow> 'w
     \<Rightarrow> (string list \<times> 'w) run" where
  "reconcile os mac iface ni regFwdIPs addrs w =
     (let cfgIPs = map (\<lambda>addr. TrimSuffix addr ''/32'') addrs;
          (toAdd, toRm) = compareIPs regFwdIPs (ForwardedIps ni) cfgIPs
      in case addLoop os (Index iface) toAdd (ForwardedIps ni) regFwdIPs w of
           Panic \<Rightarrow> Panic
         | Done (reg, w1) \<Rightarrow>
             (case rmLoop os toRm reg w1 of
                (reg', w2) \<Rightarrow> Done (reg', snd (writeRegMultiString os mac reg' w2))))"

text \<open>One iteration of the loop over the declared interfaces; \<open>continue\<close> is \<open>Done\<close>.\<close>

definition setStep ::
  "'w os \<Rightarrow> Interface list \<Rightarrow> networkInterface \<Rightarrow> globals \<Rightarrow> 'w \<Rightarrow> (globals \<times> 'w) run" where
  "setStep os ifs ni g w =
     (case ParseMAC os (Mac ni) of
        Inl err \<Rightarrow> Done (noteBadMAC (Mac ni) g, w)
      | Inr mac \<Rightarrow>
         (let (r, w1) = readRegMultiString os mac w in
          (case (case r of
                   Inl err \<Rightarrow> (if err \<noteq> errRegNotExist then None else Some [])
                 | Inr l \<Rightarrow> Some l) of
             None \<Rightarrow> Done (g, w1)
           | Some regFwdIPs \<Rightarrow>
              (let iface = fold (\<lambda>i iface. if HardwareAddr i = mac then i else iface)
                                ifs zeroInterface
               in if zeroInterface = iface then Done (noteBadMAC (Mac ni) g, w1)
                  else (let (ar, w2) = Addrs os iface w1 in
                        (case ar of
                           Inl err \<Rightarrow> Done (g, w2)
                         | Inr addrs \<Rightarrow>
                             (case reconcile os mac iface ni regFwdIPs addrs w2 of
                                Panic \<Rightarrow> Panic
                              | Done (reg, w3) \<Rightarrow> Done (g, w3))))))))"

fun setLoop ::
  "'w os \<Rightarrow> Interface list \<Rightarrow> networkInterface list \<Rightarrow> globals \<Rightarrow> 'w
     \<Rightarrow> (globals \<times> 'w) run" where
  "setLoop os ifs [] g w = Done (g, w)"
| "setLoop os ifs (ni # nis) g w =
     (case setStep os ifs ni g w of
        Panic \<Rightarrow> Panic
      | Done (g', w') \<Rightarrow> setLoop os ifs nis g' w')"

text \<open>
  \<open>set\<close>: the returned error (\<open>None\<close> is nil) with the filtered snapshot, the globals and
  the world, or a panic.
\<close>

definition set_addresses ::
  "(string \<Rightarrow> bool) \<Rightarrow> 'w os \<Rightarrow> addresses \<Rightarrow> globals \<Rightarrow> 'w
     \<Rightarrow> (error option \<times> addresses \<times> globals \<times> 'w) run" where
  "set_addresses ParseIP os a g w =
     (case Interfaces os w of
        (Inl err, w') \<Rightarrow> Done (Some err, a, g, w')
      | (Inr ifs, w') \<Rightarrow>
         (let a' = applyWSFCFilter ParseIP a in
          case setLoop os ifs (Instance_NetworkInterfaces (newMetadata a')) g w' of
            Panic \<Rightarrow> Panic
          | Done (g', w'') \<Rightarrow> Done (None, a', g', w'')))"

subsection \<open>The precedence rule in the specification's words\<close>

text \<open>
  The sources are tried in order; the first one that yields a parsed value wins, and the
  fallback supplies the value when none does.
\<close>

fun firstParseable :: "bool option list \<Rightarrow> bool \<Rightarrow> bool" where
  "firstParseable [] fallback = fallback"
| "firstParseable (None # sources) fallback = firstParseable sources fallback"
| "firstParseable (Some b # sources) fallback = b"

subsection \<open>A simulated host for concrete runs\<close>

text \<open>
  An instance of the parameter \<open>ParseIP\<close>: dotted-decimal IPv4 texts with four fields in
  0..255 and no leading zeros, all of which \<open>net.ParseIP\<close> accepts. The concrete runs
  below pass no other text to it.
\<close>

definition octet :: "string \<Rightarrow> bool" where
  "octet f =
     (f \<noteq> [] \<and> length f \<le> 3 \<and> list_all (\<lambda>c. c \<in> set ''0123456789'') f
      \<and> (length f = 1 \<or> hd f \<noteq> CHR ''0'')
      \<and> fold (\<lambda>c n. 10 * n + (of_char c - 48)) f (0::nat) \<le> 255)"

definition isIPv4 :: "string \<Rightarrow> bool" where
  "isIPv4 s = (case Split s CHR ''.'' of
                 [a, b, c, d] \<Rightarrow> octet a \<and> octet b \<and> octet c \<and> octet d
               | _ \<Rightarrow> False)"

text \<open>
  A host whose world state is the registry, an association list from value names to
  lists with the newest entry first. \<open>ifs\<close> are the live interfaces, \<open>live\<close> gives the
  address texts bound to a hardware address, and adding or deleting an address fails
  exactly for the addresses listed in \<open>failAdd\<close> and \<open>failDel\<close>. A hardware address is
  accepted when it has the 17 characters of six colon-separated bytes.
\<close>

definition simOS ::
  "Interface list \<Rightarrow> (string \<Rightarrow> string list) \<Rightarrow> string list \<Rightarrow> string list
     \<Rightarrow> ((string \<times> string list) list) os" where
  "simOS ifs live failAdd failDel =
     \<lparr>Interfaces = (\<lambda>w. (Inr ifs, w)),
      ParseMAC = (\<lambda>m. if length m = 17 then Inr m else Inl (Error ''invalid MAC address'')),
      Addrs = (\<lambda>i w. (Inr (live (HardwareAddr i)), w)),
      readRegMultiString =
        (\<lambda>name w. (case map_of w name of None \<Rightarrow> Inl errRegNotExist | Some l \<Rightarrow> Inr l, w)),
      writeRegMultiString = (\<lambda>name reg w. (None, (name, reg) # w)),
      addIPAddress =
        (\<lambda>ip idx w. (if ip \<in> set failAdd then Some (Error ''add failed'') else None, w)),
      deleteIPAddress =
        (\<lambda>ip w. (if ip \<in> set failDel then Some (Error ''delete failed'') else None, w))\<rparr>"

definition nic0 :: Interface where
  "nic0 = \<lparr>Index = 3, MTU = 1460, Name = ''Ethernet'',
            HardwareAddr = ''42:01:0a:00:00:02'', Flags = 1\<rparr>"

definition noAttributes :: attributes where
  "noAttributes = \<lparr>WSFCAddresses = [], EnableWSFC = [], DisableAddressManager = []\<rparr>"

definition noConfig :: iniFile where
  "noConfig = \<lparr>wsfc_addresses = [], wsfc_enable = None, addressManager_disable = []\<rparr>"

definition snapshot :: "string list \<Rightarrow> metadataJSON" where
  "snapshot ips =
     \<lparr>Instance_Attributes = noAttributes,
      Instance_NetworkInterfaces = [\<lparr>ForwardedIps = ips, Mac = ''42:01:0a:00:00:02''\<rparr>],
      Project_Attributes = noAttributes\<rparr>"

definition agent :: "string list \<Rightarrow> addresses" where
  "agent ips = \<lparr>newMetadata = snapshot ips, oldMetadata = snapshot ips, config = noConfig\<rparr>"

definition globals0 :: globals where
  "globals0 = \<lparr>addressDisabled = False, oldWSFCAddresses = [], oldWSFCEnable = False,
                badMAC = [], statusLog = []\<rparr>"

text \<open>Snapshots and configurations for the concrete runs.\<close>

definition clustered :: addresses where
  "clustered =
     \<lparr>newMetadata =
        \<lparr>Instance_Attributes = \<lparr>WSFCAddresses = ''10.0.0.5,,bogus'', EnableWSFC = ''true'',
                                 DisableAddressManager = []\<rparr>,
         Instance_NetworkInterfaces =
           [\<lparr>ForwardedIps = [''10.0.0.5'', ''10.0.0.6''], Mac = ''42:01:0a:00:00:02''\<rparr>,
            \<lparr>ForwardedIps = [''10.0.0.7''], Mac = ''42:01:0a:00:00:03''\<rparr>],
         Project_Attributes = noAttributes\<rparr>,
      oldMetadata = snapshot [],
      config = noConfig\<rparr>"

definition optedOut :: addresses where
  "optedOut =
     \<lparr>newMetadata = snapshot [''10.0.0.5''], oldMetadata = snapshot [''10.0.0.5''],
      config = \<lparr>wsfc_addresses = ''10.0.0.9'', wsfc_enable = Some True,
                addressManager_disable = ''true''\<rparr>\<rparr>"

definition localOnly :: addresses where
  "localOnly =
     \<lparr>newMetadata = snapshot [''10.0.0.5'', ''10.0.0.6''],
      oldMetadata = snapshot [''10.0.0.5'', ''10.0.0.6''],
      config = \<lparr>wsfc_addresses = ''10.0.0.5'', wsfc_enable = Some True,
                addressManager_disable = []\<rparr>\<rparr>"

definition projectOnly :: addresses where
  "projectOnly =
     \<lparr>newMetadata =
        \<lparr>Instance_Attributes = noAttributes,
         Instance_NetworkInterfaces =
           [\<lparr>ForwardedIps = [''10.0.0.5'', ''10.0.0.6''], Mac = ''42:01:0a:00:00:02''\<rparr>],
         Project_Attributes = \<lparr>WSFCAddresses = ''10.0.0.5'', EnableWSFC = ''true'',
                                DisableAddressManager = []\<rparr>\<rparr>,
      oldMetadata = snapshot [],
      config = noConfig\<rparr>"

definition undecided :: addresses where
  "undecided =
     \<lparr>newMetadata =
        \<lparr>Instance_Attributes = \<lparr>WSFCAddresses = [], EnableWSFC = ''yes'',
                                 DisableAddressManager = ''maybe''\<rparr>,
         Instance_NetworkInterfaces = [],
         Project_Attributes = \<lparr>WSFCAddresses = [], EnableWSFC = ''true'',
                                DisableAddressManager = []\<rparr>\<rparr>,
      oldMetadata = snapshot [],
      config = noConfig\<rparr>"

section \<open>Properties\<close>

subsection \<open>Shared facts\<close>

lemma containsString_iff: "containsString s ss = (s \<in> set ss)"
  by (induction ss) auto

lemma fold_append_filter:
  "fold (\<lambda>x acc. if P x then acc @ [x] else acc) xs acc = acc @ filter P xs"
  by (induction xs arbitrary: acc) simp_all

lemma compareIPs_eq:
  "compareIPs regFwdIPs mdFwdIPs cfgIPs =
     (filter (\<lambda>ip. ip \<notin> set cfgIPs) mdFwdIPs,
      filter (\<lambda>ip. ip \<in> set regFwdIPs \<and> ip \<notin> set mdFwdIPs) cfgIPs)"
  by (simp add: compareIPs_def containsString_iff fold_append_filter)

subsection \<open>The diff engine\<close>

text \<open>
  C1: for all lists persisted, desired and live, the remove-set of \<open>compareIPs\<close> lies
  inside both persisted and live and shares no address with desired; an address that is
  live but was never persisted is not in the remove-set.
\<close>

theorem compareIPs_remove_owned:
  "set (snd (compareIPs persisted desired live)) \<subseteq> set persisted \<inter> set live
   \<and> set (snd (compareIPs persisted desired live)) \<inter> set desired = {}
   \<and> (\<forall>ip. ip \<in> set live \<and> ip \<notin> set persisted
          \<longrightarrow> ip \<notin> set (snd (compareIPs persisted desired live)))"
  by (auto simp add: compareIPs_eq)

theorem compareIPs_remove_owned_witness:
  "set (snd (compareIPs [''10.0.0.5''] [''10.0.0.6''] [''10.0.0.5'', ''192.168.1.9'']))
     \<subseteq> set [''10.0.0.5''] \<inter> set [''10.0.0.5'', ''192.168.1.9'']
   \<and> ''192.168.1.9'' \<in> set [''10.0.0.5'', ''192.168.1.9'']
   \<and> ''192.168.1.9'' \<notin> set [''10.0.0.5'']
   \<and> ''192.168.1.9'' \<notin> set (snd (compareIPs [''10.0.0.5''] [''10.0.0.6'']
                                     [''10.0.0.5'', ''192.168.1.9'']))
   \<and> snd (compareIPs [''10.0.0.5''] [''10.0.0.6''] [''10.0.0.5'', ''192.168.1.9''])
       = [''10.0.0.5'']"
  using compareIPs_remove_owned [of "[''10.0.0.5'']" "[''10.0.0.6'']"
                                    "[''10.0.0.5'', ''192.168.1.9'']"]
  by (simp add: compareIPs_def)

text \<open>
  C5: for all lists persisted, desired and live, the add-set of \<open>compareIPs\<close> has exactly
  the members of desired that are not members of live (it is desired with the live
  addresses filtered out), and it is the same for any other persisted list.
\<close>

theorem compareIPs_add_set:
  "set (fst (compareIPs persisted desired live)) = set desired - set live
   \<and> fst (compareIPs persisted desired live) = filter (\<lambda>ip. ip \<notin> set live) desired
   \<and> fst (compareIPs persisted desired live) = fst (compareIPs persisted' desired live)"
  by (auto simp add: compareIPs_eq)

theorem compareIPs_add_set_witness:
  "fst (compareIPs [''10.0.0.5''] [''10.0.0.6'', ''10.0.0.5''] [''10.0.0.5''])
     = [''10.0.0.6'']
   \<and> fst (compareIPs [] [''10.0.0.6'', ''10.0.0.5''] [''10.0.0.5'']) = [''10.0.0.6'']"
  using compareIPs_add_set [of "[''10.0.0.5'']" "[''10.0.0.6'', ''10.0.0.5'']"
                               "[''10.0.0.5'']" "[]"]
  by (simp add: compareIPs_def)

subsection \<open>The config resolver and the change detector\<close>

text \<open>
  C7: the failover-enable flag and the manager-disabled flag are the value of the first
  source, in the order local configuration, instance attribute, project attribute, that
  parses as a boolean; a source that does not parse is passed over; when none parses
  the enable flag is false and the disabled flag is the remembered value. Both functions
  return a boolean for every input.
\<close>

theorem resolver_first_parseable:
  "parseWSFCEnable a =
     firstParseable [wsfc_enable (config a),
                     ParseBool (EnableWSFC (Instance_Attributes (newMetadata a))),
                     ParseBool (EnableWSFC (Project_Attributes (newMetadata a)))] False
   \<and> fst (disabled a g) =
       firstParseable [ParseBool (addressManager_disable (config a)),
                       ParseBool (DisableAddressManager (Instance_Attributes (newMetadata a))),
                       ParseBool (DisableAddressManager (Project_Attributes (newMetadata a)))]
                      (addressDisabled g)"
  by (simp add: parseWSFCEnable_def disabled_def disabled_body_def Let_def
           split: option.split)

theorem resolver_first_parseable_witness:
  "parseWSFCEnable undecided = True
   \<and> fst (disabled undecided (globals0\<lparr>addressDisabled := True\<rparr>)) = True
   \<and> fst (disabled undecided globals0) = False"
  using resolver_first_parseable [of undecided "globals0\<lparr>addressDisabled := True\<rparr>"]
    resolver_first_parseable [of undecided globals0]
  by (simp add: undecided_def noConfig_def ParseBool_def globals0_def)

text \<open>
  C8, as the code has it: every call of \<open>diff\<close> stores the resolved failover-address
  list and the resolved failover-enable flag, whatever boolean it returns, and leaves
  the remembered disabled flag as it was (that flag is stored by \<open>disabled\<close>).
\<close>

theorem diff_updates_wsfc_memo:
  "oldWSFCAddresses (snd (diff a g)) = parseWSFCAddresses a
   \<and> oldWSFCEnable (snd (diff a g)) = parseWSFCEnable a
   \<and> addressDisabled (snd (diff a g)) = addressDisabled g"
  by (simp add: diff_def Let_def)

theorem diff_updates_wsfc_memo_witness:
  "oldWSFCAddresses (snd (diff optedOut globals0)) = ''10.0.0.9''
   \<and> oldWSFCEnable (snd (diff optedOut globals0)) = True
   \<and> addressDisabled (snd (diff optedOut globals0)) = False"
  using diff_updates_wsfc_memo [of optedOut globals0]
  by (simp add: parseWSFCAddresses_def parseWSFCEnable_def optedOut_def globals0_def)

text \<open>
  C8, as stated, fails: with the local configuration disabling the manager and the
  remembered flag still false, the resolved disabled flag is true, and after a call of
  \<open>diff\<close> the remembered disabled flag is still false.
\<close>

theorem diff_disabled_counterexample:
  "fst (disabled optedOut globals0) = True
   \<and> addressDisabled (snd (diff optedOut globals0)) = False"
  by (simp add: disabled_def disabled_body_def diff_def optedOut_def globals0_def
        ParseBool_def Let_def)

subsection \<open>The failover exclusion filter\<close>

lemma wsfcAddrs_eq:
  "wsfcAddrs ParseIP a =
     filter (\<lambda>s. s \<noteq> [] \<and> ParseIP s)
       (Split (WSFCAddresses (Instance_Attributes (newMetadata a))) CHR '','')"
proof -
  have "(\<lambda>wsfcAddr acc. if length wsfcAddr = 0 then acc
                          else if \<not> ParseIP wsfcAddr then acc else acc @ [wsfcAddr])
        = (\<lambda>x acc. if x \<noteq> [] \<and> ParseIP x then acc @ [x] else acc)"
    by (intro ext) simp
  then show ?thesis
    by (simp add: wsfcAddrs_def fold_append_filter)
qed

lemma filteredList_eq: "filteredList addrs ips = filter (\<lambda>ip. ip \<notin> set addrs) ips"
  by (simp add: filteredList_def containsString_iff fold_append_filter)

text \<open>
  C4: the exclusion list of the filter is the list of non-empty, valid entries of the
  comma-separated attribute. When it is non-empty, every interface keeps its forwarded
  addresses that are not in the list, in order, whatever the enable flag is; when it is
  empty and the enable flag parses as true, every forwarded-address list becomes empty;
  otherwise the lists are unchanged. Nothing else of an interface changes.
\<close>

theorem applyWSFCFilter_policy:
  "Instance_NetworkInterfaces (newMetadata (applyWSFCFilter ParseIP a)) =
     map (\<lambda>ni. ni\<lparr>ForwardedIps :=
                  (if wsfcAddrs ParseIP a \<noteq> []
                   then filter (\<lambda>ip. ip \<notin> set (wsfcAddrs ParseIP a)) (ForwardedIps ni)
                   else if ParseBool (EnableWSFC (Instance_Attributes (newMetadata a)))
                           = Some True
                   then []
                   else ForwardedIps ni)\<rparr>)
         (Instance_NetworkInterfaces (newMetadata a))
   \<and> wsfcAddrs ParseIP a =
       filter (\<lambda>s. s \<noteq> [] \<and> ParseIP s)
         (Split (WSFCAddresses (Instance_Attributes (newMetadata a))) CHR '','')"
proof (rule conjI)
  show "wsfcAddrs ParseIP a =
       filter (\<lambda>s. s \<noteq> [] \<and> ParseIP s)
         (Split (WSFCAddresses (Instance_Attributes (newMetadata a))) CHR '','')"
    by (rule wsfcAddrs_eq)
next
  have same: "map (\<lambda>ni. ni\<lparr>ForwardedIps := ForwardedIps ni\<rparr>) xs = xs"
    for xs :: "networkInterface list"
    by (induction xs) simp_all
  show "Instance_NetworkInterfaces (newMetadata (applyWSFCFilter ParseIP a)) =
     map (\<lambda>ni. ni\<lparr>ForwardedIps :=
                  (if wsfcAddrs ParseIP a \<noteq> []
                   then filter (\<lambda>ip. ip \<notin> set (wsfcAddrs ParseIP a)) (ForwardedIps ni)
                   else if ParseBool (EnableWSFC (Instance_Attributes (newMetadata a)))
                           = Some True
                   then []
                   else ForwardedIps ni)\<rparr>)
         (Instance_NetworkInterfaces (newMetadata a))"
    by (simp add: applyWSFCFilter_def Let_def filteredList_eq same
             split: option.split bool.split)
qed

theorem applyWSFCFilter_policy_witness:
  "wsfcAddrs isIPv4 clustered = [''10.0.0.5'']
   \<and> ParseBool (EnableWSFC (Instance_Attributes (newMetadata clustered))) = Some True
   \<and> Instance_NetworkInterfaces (newMetadata (applyWSFCFilter isIPv4 clustered)) =
       [\<lparr>ForwardedIps = [''10.0.0.6''], Mac = ''42:01:0a:00:00:02''\<rparr>,
        \<lparr>ForwardedIps = [''10.0.0.7''], Mac = ''42:01:0a:00:00:03''\<rparr>]"
proof -
  have l: "wsfcAddrs isIPv4 clustered = [''10.0.0.5'']"
    by (simp add: wsfcAddrs_def clustered_def isIPv4_def octet_def)
  have e: "ParseBool (EnableWSFC (Instance_Attributes (newMetadata clustered))) = Some True"
    by (simp add: clustered_def ParseBool_def)
  have n: "Instance_NetworkInterfaces (newMetadata clustered) =
       [\<lparr>ForwardedIps = [''10.0.0.5'', ''10.0.0.6''], Mac = ''42:01:0a:00:00:02''\<rparr>,
        \<lparr>ForwardedIps = [''10.0.0.7''], Mac = ''42:01:0a:00:00:03''\<rparr>]"
    by (simp add: clustered_def)
  show ?thesis
    using applyWSFCFilter_policy [of isIPv4 clustered] by (simp add: l e n)
qed

text \<open>
  C3: the claim is that the filter acts on the resolved failover settings. The filter
  reads the instance attributes only. With the address list and the enable flag given
  by the local configuration alone, or by the project attributes alone, the resolved
  list is 10.0.0.5 and the resolved flag is true, and the filter changes nothing:
  10.0.0.5 stays in the forwarded addresses.
\<close>

theorem filter_ignores_resolved_settings:
  "parseWSFCAddresses localOnly = ''10.0.0.5''
   \<and> parseWSFCEnable localOnly = True
   \<and> applyWSFCFilter isIPv4 localOnly = localOnly
   \<and> parseWSFCAddresses projectOnly = ''10.0.0.5''
   \<and> parseWSFCEnable projectOnly = True
   \<and> applyWSFCFilter isIPv4 projectOnly = projectOnly"
  by (simp add: parseWSFCAddresses_def parseWSFCEnable_def applyWSFCFilter_def
        wsfcAddrs_def localOnly_def projectOnly_def snapshot_def noAttributes_def
        noConfig_def ParseBool_def Let_def)

subsection \<open>The apply loop\<close>

lemma rmLoop_fst: "fst (rmLoop os ips reg w) = reg @ failedRm os ips w"
proof (induction ips arbitrary: reg w)
  case Nil
  show ?case by simp
next
  case (Cons ip ips)
  obtain e w' where d: "deleteIPAddress os ip w = (e, w')"
    by (cases "deleteIPAddress os ip w")
  show ?case
  proof (cases e)
    case None
    with d Cons.IH [of reg w'] show ?thesis by simp
  next
    case (Some err)
    with d Cons.IH [of "reg @ [ip]" w'] show ?thesis by simp
  qed
qed

lemma failedRm_append:
  "failedRm os (pre @ post) w =
     failedRm os pre w @ failedRm os post (snd (rmLoop os pre reg w))"
  by (induction pre arbitrary: reg w) (auto split: prod.split option.split)

lemma failedRm_failed:
  assumes "fst (deleteIPAddress os ip (snd (rmLoop os pre reg w))) \<noteq> None"
  shows "ip \<in> set (failedRm os (pre @ ip # post) w)"
proof -
  let ?w = "snd (rmLoop os pre reg w)"
  obtain err w' where d: "deleteIPAddress os ip ?w = (Some err, w')"
    using assms by (cases "deleteIPAddress os ip ?w") auto
  have "failedRm os (ip # post) ?w = ip # failedRm os post w'"
    using d by simp
  then show ?thesis
    by (simp add: failedRm_append [of os pre "ip # post" w reg])
qed

text \<open>
  \<open>set\<close> returns an error exactly when the enumeration of the interfaces fails, and then
  it is that error; every other run returns nil or panics.
\<close>

lemma set_addresses_error_iff:
  "set_addresses ParseIP os a g w = Done (Some e, a', g', w')
     \<longleftrightarrow> Interfaces os w = (Inl e, w') \<and> a' = a \<and> g' = g"
  by (auto simp add: set_addresses_def Let_def split: prod.splits sum.splits run.splits)

text \<open>
  When the address of a failed add sits in \<open>reg\<close> at or beyond the length of the
  persisted list, the cut is out of range; in particular the first failed add panics
  whenever there is no persisted record.
\<close>

lemma searchReg_out_of_range:
  "ip \<in> set xs \<Longrightarrow> length regFwdIPs \<le> i \<Longrightarrow> searchReg ip xs i reg regFwdIPs = Panic"
  by (induction xs arbitrary: i) (auto simp add: removeAt_def)

lemma addLoop_no_record_panics:
  assumes "addIPAddress os ip idx w = (Some err, w')" and "ip \<in> set reg"
  shows "addLoop os idx (ip # ips) reg [] w = Panic"
  using assms searchReg_out_of_range [of ip reg "[]" 0 reg] by simp

text \<open>
  C9: for an interface whose add loop has finished with the value \<open>reg\<close>, the value
  handed to the registry write at the end of the iteration is \<open>reg\<close> followed by the
  addresses of the remove-set whose delete call failed, each added back at the end. So
  when \<open>ip\<close> is an address of the remove-set, at any position, whose delete call returns
  an error in the world that the earlier delete calls have left, \<open>ip\<close> is among the
  addresses added back and the written record contains it.
\<close>

theorem failed_remove_stays_persisted:
  assumes "compareIPs regFwdIPs (ForwardedIps ni) (map (\<lambda>addr. TrimSuffix addr ''/32'') addrs)
             = (toAdd, pre @ ip # post)"
    and "addLoop os (Index iface) toAdd (ForwardedIps ni) regFwdIPs w = Done (reg, w1)"
    and "fst (deleteIPAddress os ip (snd (rmLoop os pre reg w1))) \<noteq> None"
  shows "reconcile os mac iface ni regFwdIPs addrs w
           = Done (reg @ failedRm os (pre @ ip # post) w1,
                   snd (writeRegMultiString os mac (reg @ failedRm os (pre @ ip # post) w1)
                          (snd (rmLoop os (pre @ ip # post) reg w1))))
         \<and> ip \<in> set (failedRm os (pre @ ip # post) w1)"
proof -
  let ?res = "rmLoop os (pre @ ip # post) reg w1"
  have "reconcile os mac iface ni regFwdIPs addrs w
          = Done (fst ?res, snd (writeRegMultiString os mac (fst ?res) (snd ?res)))"
    using assms(1,2) by (simp add: reconcile_def split: prod.split)
  moreover have "fst ?res = reg @ failedRm os (pre @ ip # post) w1"
    by (rule rmLoop_fst)
  moreover have "ip \<in> set (failedRm os (pre @ ip # post) w1)"
    using assms(3) by (rule failedRm_failed)
  ultimately show ?thesis by simp
qed

theorem failed_remove_stays_persisted_witness:
  "compareIPs [''10.0.0.5'']
       (ForwardedIps \<lparr>ForwardedIps = [''10.0.0.6''], Mac = ''42:01:0a:00:00:02''\<rparr>)
       (map (\<lambda>addr. TrimSuffix addr ''/32'') [''10.0.0.5/32''])
     = ([''10.0.0.6''], [] @ ''10.0.0.5'' # [])
   \<and> addLoop (simOS [nic0] (\<lambda>m. [''10.0.0.5/32'']) [] [''10.0.0.5'']) (Index nic0)
        [''10.0.0.6'']
        (ForwardedIps \<lparr>ForwardedIps = [''10.0.0.6''], Mac = ''42:01:0a:00:00:02''\<rparr>)
        [''10.0.0.5''] []
     = Done ([''10.0.0.6''], [])
   \<and> fst (deleteIPAddress (simOS [nic0] (\<lambda>m. [''10.0.0.5/32'']) [] [''10.0.0.5''])
            ''10.0.0.5''
            (snd (rmLoop (simOS [nic0] (\<lambda>m. [''10.0.0.5/32'']) [] [''10.0.0.5'']) []
                    [''10.0.0.6''] []))) \<noteq> None
   \<and> failedRm (simOS [nic0] (\<lambda>m. [''10.0.0.5/32'']) [] [''10.0.0.5''])
        ([] @ ''10.0.0.5'' # []) [] = [''10.0.0.5'']
   \<and> reconcile (simOS [nic0] (\<lambda>m. [''10.0.0.5/32'']) [] [''10.0.0.5''])
        ''42:01:0a:00:00:02'' nic0
        \<lparr>ForwardedIps = [''10.0.0.6''], Mac = ''42:01:0a:00:00:02''\<rparr>
        [''10.0.0.5''] [''10.0.0.5/32''] []
      = Done ([''10.0.0.6'', ''10.0.0.5''],
              [(''42:01:0a:00:00:02'', [''10.0.0.6'', ''10.0.0.5''])])"
proof -
  let ?os = "simOS [nic0] (\<lambda>m. [''10.0.0.5/32'']) [] [''10.0.0.5'']"
  let ?ni = "\<lparr>ForwardedIps = [''10.0.0.6''], Mac = ''42:01:0a:00:00:02''\<rparr>"
  have c: "compareIPs [''10.0.0.5''] (ForwardedIps ?ni)
             (map (\<lambda>addr. TrimSuffix addr ''/32'') [''10.0.0.5/32''])
           = ([''10.0.0.6''], [] @ ''10.0.0.5'' # [])"
    by (simp add: compareIPs_def TrimSuffix_def)
  have a: "addLoop ?os (Index nic0) [''10.0.0.6''] (ForwardedIps ?ni) [''10.0.0.5''] []
           = Done ([''10.0.0.6''], [])"
    by (simp add: simOS_def)
  have d: "fst (deleteIPAddress ?os ''10.0.0.5''
                  (snd (rmLoop ?os [] [''10.0.0.6''] []))) \<noteq> None"
    by (simp add: simOS_def)
  have f: "failedRm ?os [''10.0.0.5''] [] = [''10.0.0.5'']"
    by (simp add: simOS_def)
  from failed_remove_stays_persisted [OF c a d, of "''42:01:0a:00:00:02''"]
  have "reconcile ?os ''42:01:0a:00:00:02'' nic0 ?ni [''10.0.0.5''] [''10.0.0.5/32''] []
          = Done ([''10.0.0.6'', ''10.0.0.5''],
                  [(''42:01:0a:00:00:02'', [''10.0.0.6'', ''10.0.0.5''])])"
    by (simp add: simOS_def)
  with c a d f show ?thesis by simp
qed

text \<open>
  C2: the claim is that a failed add removes the address from the next persisted value,
  which is otherwise the desired list. In this run the persisted list is 10.0.0.5,
  10.0.0.6, only 10.0.0.5 is live, the desired list is 10.0.0.6, 10.0.0.5, and the add
  of 10.0.0.6 fails. The position of 10.0.0.6 in the desired list is used to cut the
  previously persisted list, and the record written last is 10.0.0.6 alone: it holds the
  address whose add failed and has lost 10.0.0.5.
\<close>

theorem failed_add_persisted_record:
  "set_addresses isIPv4
     (simOS [nic0] (\<lambda>m. [''10.0.0.5/32'']) [''10.0.0.6''] [])
     (agent [''10.0.0.6'', ''10.0.0.5'']) globals0
     [(''42:01:0a:00:00:02'', [''10.0.0.5'', ''10.0.0.6''])]
   = Done (None, agent [''10.0.0.6'', ''10.0.0.5''], globals0,
           [(''42:01:0a:00:00:02'', [''10.0.0.6'']),
            (''42:01:0a:00:00:02'', [''10.0.0.5'', ''10.0.0.6''])])"
  by (simp add: set_addresses_def applyWSFCFilter_def wsfcAddrs_def noAttributes_def
        ParseBool_def agent_def snapshot_def setStep_def simOS_def nic0_def
        zeroInterface_def reconcile_def compareIPs_def TrimSuffix_def removeAt_def Let_def)

text \<open>
  C10: the claim is that the add-failure handling stays in bounds. With no persisted
  record, nothing live, the desired list 10.0.0.6 and a failing add, the address is
  found at position 0 of the desired list and the slice of the empty persisted list
  from position 1 is out of range: the iteration panics.
\<close>

theorem failed_add_out_of_range:
  "reconcile (simOS [nic0] (\<lambda>m. []) [''10.0.0.6''] []) ''42:01:0a:00:00:02'' nic0
     \<lparr>ForwardedIps = [''10.0.0.6''], Mac = ''42:01:0a:00:00:02''\<rparr> [] [] []
   = Panic"
  by (simp add: reconcile_def compareIPs_def simOS_def removeAt_def Let_def)

text \<open>
  C6: the claim is that every failure other than the enumeration is absorbed and \<open>set\<close>
  returns nil. Here the enumeration succeeds, 10.0.0.5 is persisted and live, the
  desired list is 10.0.0.5, 10.0.0.6 and the add of 10.0.0.6 fails: \<open>set\<close> panics
  instead of returning.
\<close>

theorem set_panics_on_failed_add:
  "fst (Interfaces (simOS [nic0] (\<lambda>m. [''10.0.0.5/32'']) [''10.0.0.6''] [])
          [(''42:01:0a:00:00:02'', [''10.0.0.5''])]) = Inr [nic0]
   \<and> set_addresses isIPv4
       (simOS [nic0] (\<lambda>m. [''10.0.0.5/32'']) [''10.0.0.6''] [])
       (agent [''10.0.0.5'', ''10.0.0.6'']) globals0
       [(''42:01:0a:00:00:02'', [''10.0.0.5''])]
     = Panic"
  by (simp add: set_addresses_def applyWSFCFilter_def wsfcAddrs_def noAttributes_def
        ParseBool_def agent_def snapshot_def setStep_def simOS_def nic0_def
        zeroInterface_def reconcile_def compareIPs_def TrimSuffix_def removeAt_def Let_def)

end
